theory Spec2Isabelle
  imports Main "HOL-Library.Word"
begin

section \<open>Value types\<close>

text \<open>
  Go's \<open>uint\<close> is a 64-bit unsigned machine integer and \<open>int\<close> a 64-bit signed one
  (the \<open>amd64\<close>/\<open>arm64\<close> targets).  \<open>uint\<close> values are modelled as \<open>64 word\<close>.  The
  \<open>int\<close> fields of \<open>Version\<close> are only ever produced by \<open>strconv.Atoi\<close>, which detects
  overflow itself, so they are modelled as \<open>int\<close> with the range written out where it
  matters (\<open>int_range\<close>).  Byte slices and strings are \<open>char list\<close>.
\<close>

type_synonym uint = "64 word"

definition int_range :: "int \<Rightarrow> bool" where
  "int_range i = (- (2 ^ 63) \<le> i \<and> i < 2 ^ 63)"

subsection \<open>Errors (errors.go)\<close>

text \<open>
  \<open>ErrInvalidVersionFormat\<close> and \<open>ErrNoDeviceFound\<close> are the two sentinel errors.
  \<open>Wrap msg e\<close> is \<open>fmt.Errorf(msg + ": %w", e)\<close>; \<open>Errorf msg\<close> is \<open>fmt.Errorf(msg)\<close>
  without a wrapped error.  \<open>errors_Is\<close> follows the chain of wrapped errors as
  \<open>errors.Is\<close> does.
\<close>

datatype error =
    ErrInvalidVersionFormat
  | ErrNoDeviceFound
  | Wrap string error
  | Errorf string

fun errors_Is :: "error \<Rightarrow> error \<Rightarrow> bool" where
  "errors_Is (Wrap msg e) target = (Wrap msg e = target \<or> errors_Is e target)"
| "errors_Is e target = (e = target)"

subsection \<open>Library functions used by Version\<close>

text \<open>\<open>bytes.Trim(b, cutset)\<close> for a cutset of one ASCII byte: all leading and all
  trailing occurrences of the byte are sliced off.\<close>

definition Trim :: "string \<Rightarrow> char \<Rightarrow> string" where
  "Trim b c = rev (dropWhile (\<lambda>x. x = c) (rev (dropWhile (\<lambda>x. x = c) b)))"

text \<open>\<open>bytes.Split(s, sep)\<close> for a separator of one byte: the pieces between the
  separators, one more than there are separators (the empty input gives one empty
  piece).  The \<open>[]\<close> branch of the case is never taken: the result is never empty.\<close>

fun Split :: "string \<Rightarrow> char \<Rightarrow> string list" where
  "Split [] sep = [[]]"
| "Split (c # cs) sep =
     (if c = sep then [] # Split cs sep
      else (case Split cs sep of [] \<Rightarrow> [[c]] | p # ps \<Rightarrow> (c # p) # ps))"

text \<open>
  \<open>strconv.Atoi\<close> on a 64-bit platform.  An optional sign, then at least one byte, all
  of them decimal digits; \<open>ParseUint_loop\<close> is the digit loop of \<open>strconv.ParseUint\<close> in
  base 10 with 64 bits: a byte that is no digit is a syntax error with value 0, and the
  first digit that takes the value past \<open>2^64 - 1\<close> is a range error with the largest
  value.  \<open>Atoi\<close> then checks the magnitude against \<open>2^63\<close> as \<open>strconv.ParseInt\<close> does
  and returns the clamped value with the range error.  The fast path of \<open>Atoi\<close> for
  inputs shorter than 19 bytes computes the same result, since no such input overflows.
  The result is Go's pair of the value and the error (\<open>None\<close> is \<open>nil\<close>).
\<close>

datatype NumError = ErrSyntax | ErrRange

definition is_digit :: "char \<Rightarrow> bool" where
  "is_digit c = (48 \<le> (of_char c :: nat) \<and> (of_char c :: nat) \<le> 57)"

definition digit_val :: "char \<Rightarrow> int" where
  "digit_val c = int (of_char c) - 48"

fun ParseUint_loop :: "string \<Rightarrow> int \<Rightarrow> (NumError \<times> int) + int" where
  "ParseUint_loop [] n = Inr n"
| "ParseUint_loop (c # cs) n =
     (if \<not> is_digit c then Inl (ErrSyntax, 0)
      else if n * 10 + digit_val c \<ge> 2 ^ 64 then Inl (ErrRange, 2 ^ 64 - 1)
      else ParseUint_loop cs (n * 10 + digit_val c))"

definition ParseUint :: "string \<Rightarrow> (NumError \<times> int) + int" where
  "ParseUint s = (if s = [] then Inl (ErrSyntax, 0) else ParseUint_loop s 0)"

definition Atoi :: "string \<Rightarrow> int \<times> NumError option" where
  "Atoi s =
     (case s of
        [] \<Rightarrow> (0, Some ErrSyntax)
      | c # cs \<Rightarrow>
          (let neg = (c = CHR ''-'');
               body = (if c = CHR ''+'' \<or> c = CHR ''-'' then cs else s)
           in case ParseUint body of
                Inl (ErrSyntax, un) \<Rightarrow> (0, Some ErrSyntax)
              | Inl (ErrRange, un) \<Rightarrow>
                  (if neg then (- (2 ^ 63), Some ErrRange) else (2 ^ 63 - 1, Some ErrRange))
              | Inr un \<Rightarrow>
                  (if \<not> neg \<and> un \<ge> 2 ^ 63 then (2 ^ 63 - 1, Some ErrRange)
                   else if neg \<and> un > 2 ^ 63 then (- (2 ^ 63), Some ErrRange)
                   else (if neg then - un else un, None))))"

text \<open>The \<open>%d\<close> verb of \<open>fmt.Sprintf\<close> on an \<open>int\<close>: the decimal digits without
  leading zeros, after a minus sign for a negative value.\<close>

definition digit_char :: "nat \<Rightarrow> char" where
  "digit_char d = char_of (48 + d)"

fun fmt_nat :: "nat \<Rightarrow> string" where
  "fmt_nat n = (if n < 10 then [digit_char n] else fmt_nat (n div 10) @ [digit_char (n mod 10)])"

declare fmt_nat.simps [simp del]

definition fmt_d :: "int \<Rightarrow> string" where
  "fmt_d i = (if i < 0 then CHR ''-'' # fmt_nat (nat (- i)) else fmt_nat (nat i))"

subsection \<open>Version\<close>

record Version =
  Major :: int
  Minor :: int
  Patch :: int

definition NewVersion :: "int \<Rightarrow> int \<Rightarrow> int \<Rightarrow> Version" where
  "NewVersion major minor patch = \<lparr>Major = major, Minor = minor, Patch = patch\<rparr>"

text \<open>\<open>Version.String\<close>: \<open>fmt.Sprintf("%d.%d.%d", v.Major, v.Minor, v.Patch)\<close>.\<close>

definition Version_String :: "Version \<Rightarrow> string" where
  "Version_String v = fmt_d (Major v) @ ''.'' @ fmt_d (Minor v) @ ''.'' @ fmt_d (Patch v)"

text \<open>
  \<open>Version.UnmarshalJSON\<close>.  The receiver is a pointer: the function takes the target's
  value before the call and returns its value after the call with the error
  (\<open>None\<close> is \<open>nil\<close>).  Each \<open>v.X, err = strconv.Atoi(...)\<close> assigns the field before
  the error is tested, as the source does.
\<close>

definition UnmarshalJSON :: "Version \<Rightarrow> string \<Rightarrow> Version \<times> error option" where
  "UnmarshalJSON v b =
     (let val = Split (Trim b (CHR 0x22)) (CHR ''.'') in
      if length val \<noteq> 3 then (v, Some ErrInvalidVersionFormat)
      else
        let (n0, err0) = Atoi (val ! 0); v0 = v\<lparr>Major := n0\<rparr> in
        if err0 \<noteq> None then
          (v0\<lparr>Major := 0, Minor := 0, Patch := 0\<rparr>,
           Some (Wrap ''invalid major version'' ErrInvalidVersionFormat))
        else
          let (n1, err1) = Atoi (val ! 1); v1 = v0\<lparr>Minor := n1\<rparr> in
          if err1 \<noteq> None then
            (v1\<lparr>Major := 0, Minor := 0, Patch := 0\<rparr>,
             Some (Wrap ''invalid minor version'' ErrInvalidVersionFormat))
          else
            let (n2, err2) = Atoi (val ! 2); v2 = v1\<lparr>Patch := n2\<rparr> in
            if err2 \<noteq> None then
              (v2\<lparr>Major := 0, Minor := 0, Patch := 0\<rparr>,
               Some (Wrap ''invalid patch version'' ErrInvalidVersionFormat))
            else (v2, None))"

text \<open>\<open>Version.MarshalJSON\<close>: \<open>json.Marshal(v.String())\<close>.  The string holds only
  digits, dots and minus signs, none of which JSON escapes, so the encoding is the
  string between two double quotes; \<open>json.Marshal\<close> of a string never fails.\<close>

definition MarshalJSON :: "Version \<Rightarrow> string \<times> error option" where
  "MarshalJSON v = ([CHR 0x22] @ Version_String v @ [CHR 0x22], None)"

subsection \<open>State, Brightness, Color, ColorKelvin\<close>

type_synonym State = uint
type_synonym Brightness = uint
type_synonym ColorKelvin = uint

definition NewState :: "uint \<Rightarrow> State" where
  "NewState v = v"

definition State_String :: "State \<Rightarrow> string" where
  "State_String s = (if s = 1 then ''On'' else ''Off'')"

definition NewBrightness :: "uint \<Rightarrow> Brightness" where
  "NewBrightness v = (if v > 100 then 100 else v)"

record Color =
  R :: uint
  G :: uint
  B :: uint

definition NewColor :: "uint \<Rightarrow> uint \<Rightarrow> uint \<Rightarrow> Color" where
  "NewColor r g b =
     (let r = (if r > 255 then 255 else r);
          g = (if g > 255 then 255 else g);
          b = (if b > 255 then 255 else b)
      in \<lparr>R = r, G = g, B = b\<rparr>)"

definition NewColorKelvin :: "uint \<Rightarrow> ColorKelvin" where
  "NewColorKelvin v =
     (let v = (if v < 2000 then 2000 else v);
          v = (if v > 9000 then 9000 else v)
      in v)"

section \<open>Wire messages\<close>

text \<open>\<open>wrapper\<close> is the envelope \<open>{"msg":{"cmd":...,"data":...}}\<close>: the command name and
  the raw JSON of the payload.\<close>

record wrapper =
  CMD :: string
  Data :: string

record scanResponse =
  scan_IP :: string
  scan_DeviceID :: string
  scan_SKU :: string
  scan_BleVersionHard :: Version
  scan_BleVersionSoft :: Version
  scan_WifiVersionHard :: Version
  scan_WifiVersionSoft :: Version

record devStatusResponse =
  OnOff :: State
  status_Brightness :: Brightness
  status_Color :: Color
  status_ColorKelvin :: ColorKelvin

text \<open>
  \<open>json.Marshal\<close> of the two request structs used below.  \<open>onOffRequest\<close> has the one
  field \<open>value\<close>, an unsigned integer, and \<open>devStatusRequest\<close> has none; neither can
  fail to encode.
\<close>

definition json_Marshal_onOffRequest :: "State \<Rightarrow> error + string" where
  \<open>json_Marshal_onOffRequest v = Inr (''{"value":'' @ fmt_nat (unat v) @ ''}'')\<close>

definition json_Marshal_devStatusRequest :: "error + string" where
  "json_Marshal_devStatusRequest = Inr ''{}''"

text \<open>\<open>newAPIRequest(cmd, data)\<close>, given the result of \<open>json.Marshal(data)\<close>.\<close>

definition newAPIRequest :: "string \<Rightarrow> error + string \<Rightarrow> error + wrapper" where
  "newAPIRequest cmd marshalled =
     (case marshalled of
        Inl err \<Rightarrow> Inl err
      | Inr jsonData \<Rightarrow> Inr \<lparr>CMD = cmd, Data = jsonData\<rparr>)"

text \<open>\<open>Message.Payload\<close> has type \<open>any\<close>; the values the program stores there are a
  request envelope (\<open>*wrapper\<close>), a \<open>scanResponse\<close> or a \<open>devStatusResponse\<close>.\<close>

datatype Payload =
    Request wrapper
  | Scan scanResponse
  | Status devStatusResponse

record Message =
  IP :: string
  Payload :: Payload

section \<open>Channels and select\<close>

text \<open>
  A Go \<open>select\<close> runs one of the cases that can proceed, chosen by the runtime; with
  none ready it runs \<open>default\<close> when there is one and blocks otherwise.
  \<open>select_ready pick ready\<close> is the case run when the list \<open>ready\<close> of cases can
  proceed, \<open>pick\<close> standing for the runtime's choice; \<open>None\<close> says that no case is
  ready.

  The command queue is the unbuffered channel \<open>c.command\<close>.  A sender finds it in one
  of three states: the dispatcher is blocked receiving on it, nobody is receiving, or
  it has been closed.  A send on a closed channel can proceed, and panics.
\<close>

definition select_ready :: "nat \<Rightarrow> 'a list \<Rightarrow> 'a option" where
  "select_ready pick ready =
     (if ready = [] then None else Some (ready ! (pick mod length ready)))"

datatype chan_state = Receiving | Blocked | Closed

datatype 'a outcome = Returned 'a | Panic

text \<open>The \<open>select\<close> of the fire-and-forget commands: one send case and a
  \<open>default\<close> that returns the given error.  The result is the returned error and the
  messages handed to the dispatcher.\<close>

definition send_or_default ::
  "chan_state \<Rightarrow> Message \<Rightarrow> string \<Rightarrow> (error option \<times> Message list) outcome" where
  "send_or_default ch msg errmsg =
     (case ch of
        Receiving \<Rightarrow> Returned (None, [msg])
      | Blocked \<Rightarrow> Returned (Some (Errorf errmsg), [])
      | Closed \<Rightarrow> Panic)"

section \<open>Device\<close>

text \<open>
  The device source with the \<open>statusUpdate\<close> channel and \<open>RequestStatus\<close> is the one
  embedded here; it is the one \<open>controller.go\<close> builds its devices for.

  The fields of \<open>Device\<close>.  \<open>seen\<close> is a timestamp.  \<open>statusUpdate\<close> is the content
  of the channel \<open>make(chan time.Time, 1)\<close> created in \<open>Controller.Start\<close>: the
  buffered timestamps, at most \<open>statusUpdate_cap\<close> of them.  The logger, the shared
  context and the shared command queue are not part of the device's own state; the
  operations below take the state of the context and of the queue as arguments.
\<close>

record Device =
  seen :: nat
  ip :: string
  deviceID :: string
  sku :: string
  bleVersionHard :: Version
  bleVersionSoft :: Version
  wifiVersionHard :: Version
  wifiVersionSoft :: Version
  state :: State
  brightness :: Brightness
  color :: Color
  colorKelvin :: ColorKelvin
  statusUpdate :: "nat list"

definition statusUpdate_cap :: nat where
  "statusUpdate_cap = 1"

text \<open>
  One iteration of the loop of \<open>Device.handler\<close> that received \<open>resp\<close> from
  \<open>d.response\<close>.  \<open>now\<close> and \<open>now'\<close> are the two readings of the clock; \<open>waiting\<close>
  says whether a caller is blocked receiving on \<open>d.statusUpdate\<close>.  The inner
  \<open>select\<close> sends without blocking: to the blocked receiver when there is one, into
  the buffer when it has room, and otherwise it takes the \<open>default\<close> case.  The
  result is the device and whether a blocked receiver got the signal.
\<close>

definition handler_step :: "nat \<Rightarrow> nat \<Rightarrow> bool \<Rightarrow> Device \<Rightarrow> Message \<Rightarrow> Device \<times> bool" where
  "handler_step now now' waiting d resp =
     (case Payload resp of
        Scan payload \<Rightarrow>
          (d\<lparr>ip := scan_IP payload,
             deviceID := scan_DeviceID payload,
             sku := scan_SKU payload,
             bleVersionHard := scan_BleVersionHard payload,
             bleVersionSoft := scan_BleVersionSoft payload,
             wifiVersionHard := scan_WifiVersionHard payload,
             wifiVersionSoft := scan_WifiVersionSoft payload,
             seen := now\<rparr>, False)
      | Status payload \<Rightarrow>
          (let d1 = d\<lparr>state := OnOff payload,
                      brightness := status_Brightness payload,
                      color := status_Color payload,
                      colorKelvin := status_ColorKelvin payload,
                      seen := now\<rparr>
           in if waiting then (d1, True)
              else if length (statusUpdate d1) < statusUpdate_cap
                then (d1\<lparr>statusUpdate := statusUpdate d1 @ [now']\<rparr>, False)
              else (d1, False))
      | Request w \<Rightarrow> (d, False))"

definition TurnOn :: "chan_state \<Rightarrow> Device \<Rightarrow> (error option \<times> Message list) outcome" where
  "TurnOn ch d =
     (case newAPIRequest ''turn'' (json_Marshal_onOffRequest 1) of
        Inl err \<Rightarrow> Returned (Some err, [])
      | Inr w \<Rightarrow>
          send_or_default ch \<lparr>IP = ip d, Payload = Request w\<rparr>
            ''failed to send TurnOn command: channel blocked or closed'')"

definition TurnOff :: "chan_state \<Rightarrow> Device \<Rightarrow> (error option \<times> Message list) outcome" where
  "TurnOff ch d =
     (case newAPIRequest ''turn'' (json_Marshal_onOffRequest 0) of
        Inl err \<Rightarrow> Returned (Some err, [])
      | Inr w \<Rightarrow>
          send_or_default ch \<lparr>IP = ip d, Payload = Request w\<rparr>
            ''failed to send TurnOff command: channel blocked or closed'')"

definition Toggle :: "chan_state \<Rightarrow> Device \<Rightarrow> (error option \<times> Message list) outcome" where
  "Toggle ch d = (if state d = 1 then TurnOff ch d else TurnOn ch d)"

text \<open>
  \<open>Device.RequestStatus\<close>.  What the caller meets while it runs is the argument
  \<open>sched\<close>: the state of the command queue and of the shared context at the first
  \<open>select\<close> with the runtime's choice there, the state of the context at the second
  \<open>select\<close> with the runtime's choice there, and, when the second \<open>select\<close> has to
  block, the event that ends the wait.  The timer of \<open>time.After\<close> has just been
  started when the second \<open>select\<close> looks for ready cases, so it is not among them; it
  fires after five seconds, so the wait always ends.  The result is the returned error,
  the device (with a consumed signal taken out of \<open>statusUpdate\<close>) and the messages
  handed to the dispatcher.
\<close>

datatype wake = WakeStatus nat | WakeTimeout | WakeDone

record sched =
  command :: chan_state
  done_send :: bool
  pick_send :: nat
  done_wait :: bool
  pick_wait :: nat
  wake :: wake

datatype send_case = SendCommand | SendDone

datatype wait_case = WaitStatus | WaitDone

definition RequestStatus ::
  "sched \<Rightarrow> Device \<Rightarrow> (error option \<times> Device \<times> Message list) outcome" where
  "RequestStatus s d =
     (case newAPIRequest ''devStatus'' json_Marshal_devStatusRequest of
        Inl err \<Rightarrow> Returned (Some err, d, [])
      | Inr w \<Rightarrow>
          (case select_ready (pick_send s)
                  ((if command s \<noteq> Blocked then [SendCommand] else []) @
                   (if done_send s then [SendDone] else [])) of
             None \<Rightarrow>
               Returned (Some (Errorf ''failed to send RequestStatus command: channel blocked or closed''), d, [])
           | Some SendDone \<Rightarrow>
               Returned (Some (Errorf ''context canceled while sending RequestStatus command''), d, [])
           | Some SendCommand \<Rightarrow>
               if command s = Closed then Panic
               else
                 (let sent = [\<lparr>IP = ip d, Payload = Request w\<rparr>] in
                  case select_ready (pick_wait s)
                         ((if statusUpdate d \<noteq> [] then [WaitStatus] else []) @
                          (if done_wait s then [WaitDone] else [])) of
                    Some WaitStatus \<Rightarrow>
                      Returned (None, d\<lparr>statusUpdate := tl (statusUpdate d)\<rparr>, sent)
                  | Some WaitDone \<Rightarrow>
                      Returned (Some (Errorf ''context canceled while waiting for status response''), d, sent)
                  | None \<Rightarrow>
                      (case wake s of
                         WakeStatus t \<Rightarrow> Returned (None, d, sent)
                       | WakeTimeout \<Rightarrow>
                           Returned (Some (Errorf ''timeout waiting for device status response''), d, sent)
                       | WakeDone \<Rightarrow>
                           Returned (Some (Errorf ''context canceled while waiting for status response''), d, sent)))))"

section \<open>Controller (controller.go)\<close>

text \<open>The registry \<open>c.devices\<close> is a slice of pointers; a device is identified here by
  its position in the list.\<close>

record Controller =
  devices :: "Device list"

text \<open>\<open>Controller.DeviceByIP\<close>: the first device with that address.\<close>

fun DeviceByIP_list :: "Device list \<Rightarrow> string \<Rightarrow> error + nat" where
  "DeviceByIP_list [] a = Inl ErrNoDeviceFound"
| "DeviceByIP_list (device # rest) a =
     (if ip device = a then Inr 0
      else (case DeviceByIP_list rest a of Inl err \<Rightarrow> Inl err | Inr i \<Rightarrow> Inr (Suc i)))"

definition DeviceByIP :: "Controller \<Rightarrow> string \<Rightarrow> error + nat" where
  "DeviceByIP c a = DeviceByIP_list (devices c) a"

text \<open>The \<open>Device\<close> literal of the listener: the address and a fresh empty
  \<open>statusUpdate\<close> channel, every other field at its zero value.\<close>

definition newDevice :: "string \<Rightarrow> Device" where
  "newDevice srcAddr =
     \<lparr>seen = 0, ip = srcAddr, deviceID = [], sku = [],
      bleVersionHard = \<lparr>Major = 0, Minor = 0, Patch = 0\<rparr>,
      bleVersionSoft = \<lparr>Major = 0, Minor = 0, Patch = 0\<rparr>,
      wifiVersionHard = \<lparr>Major = 0, Minor = 0, Patch = 0\<rparr>,
      wifiVersionSoft = \<lparr>Major = 0, Minor = 0, Patch = 0\<rparr>,
      state = 0, brightness = 0, color = \<lparr>R = 0, G = 0, B = 0\<rparr>, colorKelvin = 0,
      statusUpdate = []\<rparr>"

text \<open>\<open>json.Unmarshal\<close> at the three types the listener decodes into is a parameter
  of the model.\<close>

record json =
  Unmarshal_wrapper :: "string \<Rightarrow> error + wrapper"
  Unmarshal_scanResponse :: "string \<Rightarrow> error + scanResponse"
  Unmarshal_devStatusResponse :: "string \<Rightarrow> error + devStatusResponse"

text \<open>
  The body of the listener loop for one datagram \<open>buffer\<close> read from \<open>srcAddr\<close>.  The
  result is the controller and the message sent on the device's \<open>response\<close> channel,
  if any, with the position of that device in the registry; the device's worker then
  applies it with \<open>handler_step\<close>.
\<close>

definition listener_step ::
  "json \<Rightarrow> Controller \<Rightarrow> string \<Rightarrow> string \<Rightarrow> Controller \<times> (nat \<times> Message) option" where
  "listener_step j c srcAddr buffer =
     (let (c1, device) =
            (case DeviceByIP c srcAddr of
               Inr i \<Rightarrow> (c, i)
             | Inl err \<Rightarrow>
                 (c\<lparr>devices := devices c @ [newDevice srcAddr]\<rparr>, length (devices c)))
      in case Unmarshal_wrapper j buffer of
           Inl err \<Rightarrow> (c1, None)
         | Inr request \<Rightarrow>
             if CMD request = ''scan'' then
               (case Unmarshal_scanResponse j (Data request) of
                  Inl err \<Rightarrow> (c1, None)
                | Inr msg \<Rightarrow> (c1, Some (device, \<lparr>IP = srcAddr, Payload = Scan msg\<rparr>)))
             else if CMD request = ''devStatus'' then
               (case Unmarshal_devStatusResponse j (Data request) of
                  Inl err \<Rightarrow> (c1, None)
                | Inr msg \<Rightarrow> (c1, Some (device, \<lparr>IP = srcAddr, Payload = Status msg\<rparr>)))
             else (c1, None))"

text \<open>
  The command sender: for each message of the queue, \<open>json.Marshal\<close> of the payload
  (a parameter), then the target \<open>host:port\<close> that is resolved and dialled.  The
  result lists, for the messages that were encoded, the target and the bytes to write.
  Resolving, dialling and writing come after the target is chosen; when one of them
  fails the message is logged and dropped, which the result does not record.
  \<open>target_port\<close> is the port as \<open>net.ResolveUDPAddr\<close> reads it, the text after the
  last colon.
\<close>

definition target :: "string \<Rightarrow> string" where
  "target cmdIP =
     (if cmdIP = ''239.255.255.250'' then cmdIP @ '':4001'' else cmdIP @ '':4003'')"

fun command_sender :: "(Payload \<Rightarrow> error + string) \<Rightarrow> Message list \<Rightarrow> (string \<times> string) list" where
  "command_sender marshal [] = []"
| "command_sender marshal (cmd # rest) =
     (case marshal (Payload cmd) of
        Inl err \<Rightarrow> command_sender marshal rest
      | Inr data \<Rightarrow> (target (IP cmd), data) # command_sender marshal rest)"

definition target_port :: "string \<Rightarrow> string" where
  "target_port t = rev (takeWhile (\<lambda>x. x \<noteq> CHR '':'') (rev t))"

subsection \<open>Reading of the words of the specification\<close>

text \<open>A decimal integer: an optional sign followed by one or more decimal digits.\<close>

definition decimal_integer :: "string \<Rightarrow> bool" where
  "decimal_integer s =
     (case s of
        [] \<Rightarrow> False
      | c # cs \<Rightarrow>
          (let body = (if c = CHR ''+'' \<or> c = CHR ''-'' then cs else s)
           in body \<noteq> [] \<and> list_all is_digit body))"

text \<open>The datagram fails to decode: the envelope does, or the payload of a \<open>scan\<close>
  or \<open>devStatus\<close> message does.\<close>

definition decode_fails :: "json \<Rightarrow> string \<Rightarrow> bool" where
  "decode_fails j buffer =
     (case Unmarshal_wrapper j buffer of
        Inl err \<Rightarrow> True
      | Inr request \<Rightarrow>
          (CMD request = ''scan'' \<and> isl (Unmarshal_scanResponse j (Data request)))
          \<or> (CMD request = ''devStatus'' \<and> isl (Unmarshal_devStatusResponse j (Data request))))"

text \<open>The status query \<open>RequestStatus\<close> hands to the dispatcher.\<close>

definition status_query :: "Device \<Rightarrow> Message" where
  "status_query d = \<lparr>IP = ip d, Payload = Request \<lparr>CMD = ''devStatus'', Data = ''{}''\<rparr>\<rparr>"

subsection \<open>Concrete inputs\<close>

text \<open>
  A decoder that rejects its input the way \<open>json.Unmarshal\<close> rejects the empty
  datagram, the only input it is applied to below; a device as the listener creates
  it; a status response; a caller that finds the dispatcher receiving, the context
  live and nothing but the timeout ahead; and a caller that finds nobody receiving and
  the context canceled.
\<close>

definition json_rejecting :: json where
  "json_rejecting =
     \<lparr>Unmarshal_wrapper = (\<lambda>b. Inl (Errorf ''unexpected end of JSON input'')),
      Unmarshal_scanResponse = (\<lambda>b. Inl (Errorf ''unexpected end of JSON input'')),
      Unmarshal_devStatusResponse = (\<lambda>b. Inl (Errorf ''unexpected end of JSON input''))\<rparr>"

definition device_0 :: Device where
  "device_0 = newDevice ''192.168.1.23''"

definition status_0 :: Message where
  "status_0 =
     \<lparr>IP = ''192.168.1.23'',
      Payload = Status \<lparr>OnOff = 1, status_Brightness = 100,
                        status_Color = \<lparr>R = 255, G = 0, B = 0\<rparr>, status_ColorKelvin = 7200\<rparr>\<rparr>"

definition sched_timeout :: sched where
  "sched_timeout =
     \<lparr>command = Receiving, done_send = False, pick_send = 0,
      done_wait = False, pick_wait = 0, wake = WakeTimeout\<rparr>"


text \<open>The value of a digit string read from the left, starting from \<open>acc\<close>; used to
  state what the digit loop computes.\<close>

definition digits_value :: "int \<Rightarrow> string \<Rightarrow> int" where
  "digits_value acc s = foldl (\<lambda>n c. n * 10 + digit_val c) acc s"

section \<open>Decimal digits: formatting and parsing\<close>

lemma digit_char_is_digit: "d < 10 \<Longrightarrow> is_digit (digit_char d)"
  by (simp add: is_digit_def digit_char_def)

lemma digit_val_digit_char: "d < 10 \<Longrightarrow> digit_val (digit_char d) = int d"
  by (simp add: digit_val_def digit_char_def)

lemma fmt_nat_digits: "c \<in> set (fmt_nat n) \<Longrightarrow> is_digit c"
proof (induction n arbitrary: c rule: fmt_nat.induct)
  case (1 n)
  show ?case
  proof (cases "n < 10")
    case True
    with "1.prems" show ?thesis
      by (simp add: fmt_nat.simps [of n] digit_char_is_digit)
  next
    case False
    with "1.prems" "1.IH" show ?thesis
      by (auto simp add: fmt_nat.simps [of n] digit_char_is_digit)
  qed
qed

lemma fmt_nat_nonempty: "fmt_nat n \<noteq> []"
  by (subst fmt_nat.simps) simp

lemma int_div_mod_10: "int (n div 10) * 10 + int (n mod 10) = int n"
proof -
  have "int n = int (n div 10 * 10 + n mod 10)" by simp
  also have "\<dots> = int (n div 10) * 10 + int (n mod 10)"
    by (simp only: of_nat_add of_nat_mult of_nat_numeral)
  finally show ?thesis by simp
qed

lemma digits_value_fmt_nat: "digits_value 0 (fmt_nat n) = int n"
proof (induction n rule: fmt_nat.induct)
  case (1 n)
  show ?case
  proof (cases "n < 10")
    case True
    then show ?thesis
      by (simp add: fmt_nat.simps [of n] digits_value_def digit_val_digit_char)
  next
    case False
    with "1.IH" have "digits_value 0 (fmt_nat (n div 10)) = int (n div 10)" by simp
    with False show ?thesis
      by (simp add: fmt_nat.simps [of n] digits_value_def digit_val_digit_char int_div_mod_10)
  qed
qed

lemma digit_val_nonneg: "is_digit c \<Longrightarrow> 0 \<le> digit_val c"
  by (simp add: is_digit_def digit_val_def)

lemma digits_value_ge:
  "0 \<le> acc \<Longrightarrow> \<forall>c \<in> set s. is_digit c \<Longrightarrow> acc \<le> digits_value acc s"
proof (induction s arbitrary: acc)
  case Nil
  show ?case by (simp add: digits_value_def)
next
  case (Cons c cs)
  from Cons.prems have d: "0 \<le> digit_val c" by (simp add: digit_val_nonneg)
  with Cons.prems have "acc \<le> acc * 10 + digit_val c" by simp
  also have "\<dots> \<le> digits_value (acc * 10 + digit_val c) cs"
    using Cons.prems d by (intro Cons.IH) simp_all
  finally show ?case by (simp add: digits_value_def)
qed

lemma ParseUint_loop_digits:
  "0 \<le> acc \<Longrightarrow> \<forall>c \<in> set s. is_digit c \<Longrightarrow> digits_value acc s < 2 ^ 64 \<Longrightarrow>
   ParseUint_loop s acc = Inr (digits_value acc s)"
proof (induction s arbitrary: acc)
  case Nil
  show ?case by (simp add: digits_value_def)
next
  case (Cons c cs)
  have step: "digits_value acc (c # cs) = digits_value (acc * 10 + digit_val c) cs"
    by (simp add: digits_value_def)
  from Cons.prems have d: "0 \<le> digit_val c" by (simp add: digit_val_nonneg)
  with Cons.prems have nonneg: "0 \<le> acc * 10 + digit_val c" by simp
  have "acc * 10 + digit_val c \<le> digits_value (acc * 10 + digit_val c) cs"
    using nonneg Cons.prems by (intro digits_value_ge) simp_all
  with Cons.prems(3) step have small: "acc * 10 + digit_val c < 2 ^ 64" by simp
  have "ParseUint_loop cs (acc * 10 + digit_val c) = Inr (digits_value (acc * 10 + digit_val c) cs)"
    using nonneg Cons.prems by (intro Cons.IH) (simp_all add: step)
  with Cons.prems(2) small step show ?case by simp
qed

lemma is_digit_not_sign: "is_digit c \<Longrightarrow> c \<noteq> CHR ''+'' \<and> c \<noteq> CHR ''-'' \<and> c \<noteq> CHR ''.'' \<and> c \<noteq> CHR 0x22"
  by (auto simp add: is_digit_def)

lemma Atoi_fmt_nat:
  assumes "n < 2 ^ 63"
  shows "Atoi (fmt_nat n) = (int n, None)"
proof -
  obtain c cs where s: "fmt_nat n = c # cs"
    using fmt_nat_nonempty [of n] by (cases "fmt_nat n") auto
  have dig: "\<forall>x \<in> set (fmt_nat n). is_digit x"
    using fmt_nat_digits by blast
  then have "is_digit c" by (simp add: s)
  then have nosign: "c \<noteq> CHR ''+''" "c \<noteq> CHR ''-''"
    using is_digit_not_sign by blast+
  have "digits_value 0 (fmt_nat n) < 2 ^ 64"
    using assms by (simp add: digits_value_fmt_nat)
  with dig have "ParseUint_loop (fmt_nat n) 0 = Inr (int n)"
    using ParseUint_loop_digits [of 0 "fmt_nat n"] by (simp add: digits_value_fmt_nat)
  then have "ParseUint (c # cs) = Inr (int n)"
    by (simp add: ParseUint_def s)
  with nosign assms show ?thesis
    by (simp add: Atoi_def s)
qed

lemma Split_no_sep: "sep \<notin> set a \<Longrightarrow> Split a sep = [a]"
  by (induction a) auto

lemma Split_append: "sep \<notin> set a \<Longrightarrow> Split (a @ sep # rest) sep = a # Split rest sep"
  by (induction a) auto

lemma dropWhile_hd: "b \<noteq> [] \<Longrightarrow> \<not> P (hd b) \<Longrightarrow> dropWhile P b = b"
  by (cases b) auto

lemma Trim_id:
  assumes "b \<noteq> []" "hd b \<noteq> c" "last b \<noteq> c"
  shows "Trim b c = b"
proof -
  have front: "dropWhile (\<lambda>x. x = c) b = b"
    using assms by (intro dropWhile_hd) auto
  have "dropWhile (\<lambda>x. x = c) (rev b) = rev b"
    using assms by (intro dropWhile_hd) (auto simp add: hd_rev)
  with front show ?thesis by (simp add: Trim_def)
qed

lemma Trim_quoted:
  assumes "b \<noteq> []" "hd b \<noteq> c" "last b \<noteq> c"
  shows "Trim (c # b @ [c]) c = b"
proof -
  have "dropWhile (\<lambda>x. x = c) (b @ [c]) = b @ [c]"
    using assms by (intro dropWhile_hd) auto
  then have front: "dropWhile (\<lambda>x. x = c) (c # b @ [c]) = b @ [c]" by simp
  have "dropWhile (\<lambda>x. x = c) (rev b) = rev b"
    using assms by (intro dropWhile_hd) (auto simp add: hd_rev)
  with front show ?thesis by (simp add: Trim_def)
qed

section \<open>Version: encoding and decoding\<close>

lemma fmt_d_nonneg: "0 \<le> i \<Longrightarrow> fmt_d i = fmt_nat (nat i)"
  by (simp add: fmt_d_def)

lemma Atoi_fmt_d: "0 \<le> i \<Longrightarrow> i < 2 ^ 63 \<Longrightarrow> Atoi (fmt_d i) = (i, None)"
  using Atoi_fmt_nat [of "nat i"] by (simp add: fmt_d_nonneg nat_less_iff)

lemma fmt_nat_no_char:
  "\<not> is_digit c \<Longrightarrow> c \<notin> set (fmt_nat n)"
  using fmt_nat_digits by blast

lemma not_digit_dot: "\<not> is_digit (CHR ''.'')" "\<not> is_digit (CHR 0x22)"
  by (simp_all add: is_digit_def)

lemma fmt_nat_hd_last: "\<not> is_digit c \<Longrightarrow> hd (fmt_nat n) \<noteq> c \<and> last (fmt_nat n) \<noteq> c"
  using fmt_nat_nonempty [of n] fmt_nat_digits [of _ n]
  by (metis hd_in_set last_in_set)

lemma Version_String_Trim:
  assumes "0 \<le> Major v" "0 \<le> Patch v"
  shows "Trim (Version_String v) (CHR 0x22) = Version_String v"
    and "Trim (CHR 0x22 # Version_String v @ [CHR 0x22]) (CHR 0x22) = Version_String v"
proof -
  have ne: "Version_String v \<noteq> []"
    by (simp add: Version_String_def fmt_d_nonneg assms fmt_nat_nonempty)
  have h: "hd (Version_String v) \<noteq> CHR 0x22"
    using fmt_nat_hd_last [OF not_digit_dot(2), of "nat (Major v)"]
    by (simp add: Version_String_def fmt_d_nonneg assms fmt_nat_nonempty)
  have l: "last (Version_String v) \<noteq> CHR 0x22"
    using fmt_nat_hd_last [OF not_digit_dot(2), of "nat (Patch v)"]
    by (simp add: Version_String_def fmt_d_nonneg assms fmt_nat_nonempty)
  show "Trim (Version_String v) (CHR 0x22) = Version_String v"
    using ne h l by (rule Trim_id)
  show "Trim (CHR 0x22 # Version_String v @ [CHR 0x22]) (CHR 0x22) = Version_String v"
    using ne h l by (rule Trim_quoted)
qed

lemma Version_String_Split:
  assumes "0 \<le> Major v" "0 \<le> Minor v" "0 \<le> Patch v"
  shows "Split (Version_String v) (CHR ''.'') = [fmt_d (Major v), fmt_d (Minor v), fmt_d (Patch v)]"
proof -
  have nd: "CHR ''.'' \<notin> set (fmt_d (Major v))" "CHR ''.'' \<notin> set (fmt_d (Minor v))"
    "CHR ''.'' \<notin> set (fmt_d (Patch v))"
    using assms by (simp_all add: fmt_d_nonneg fmt_nat_no_char not_digit_dot)
  have "Split (Version_String v) (CHR ''.'') =
        fmt_d (Major v) # Split (fmt_d (Minor v) @ CHR ''.'' # fmt_d (Patch v)) (CHR ''.'')"
    using Split_append [OF nd(1)] by (simp add: Version_String_def)
  also have "Split (fmt_d (Minor v) @ CHR ''.'' # fmt_d (Patch v)) (CHR ''.'') =
        fmt_d (Minor v) # Split (fmt_d (Patch v)) (CHR ''.'')"
    using nd(2) by (rule Split_append)
  also have "Split (fmt_d (Patch v)) (CHR ''.'') = [fmt_d (Patch v)]"
    using nd(3) by (rule Split_no_sep)
  finally show ?thesis .
qed

lemma UnmarshalJSON_of_components:
  assumes "Split (Trim b (CHR 0x22)) (CHR ''.'') = [fmt_d (Major v), fmt_d (Minor v), fmt_d (Patch v)]"
    and "0 \<le> Major v" "Major v < 2 ^ 63"
    and "0 \<le> Minor v" "Minor v < 2 ^ 63"
    and "0 \<le> Patch v" "Patch v < 2 ^ 63"
  shows "UnmarshalJSON v0 b = (v, None)"
  using assms by (simp add: UnmarshalJSON_def Atoi_fmt_d)

lemma ParseUint_loop_nondigit:
  "\<not> list_all is_digit s \<Longrightarrow> \<exists>e. ParseUint_loop s acc = Inl e"
  by (induction s arbitrary: acc) auto

lemma ParseUint_not_digits:
  "s = [] \<or> \<not> list_all is_digit s \<Longrightarrow> \<exists>e. ParseUint s = Inl e"
  using ParseUint_loop_nondigit [of s 0] by (auto simp add: ParseUint_def)

lemma Atoi_ParseUint_error:
  "ParseUint (if c = CHR ''+'' \<or> c = CHR ''-'' then cs else c # cs) = Inl e \<Longrightarrow>
   snd (Atoi (c # cs)) \<noteq> None"
  by (cases e; cases "fst e") (simp_all add: Atoi_def)

lemma Atoi_not_decimal:
  assumes "\<not> decimal_integer s"
  shows "snd (Atoi s) \<noteq> None"
proof (cases s)
  case Nil
  then show ?thesis by (simp add: Atoi_def)
next
  case (Cons c cs)
  define body where "body = (if c = CHR ''+'' \<or> c = CHR ''-'' then cs else c # cs)"
  from assms Cons have "body = [] \<or> \<not> list_all is_digit body"
    by (auto simp add: decimal_integer_def body_def)
  then obtain e where "ParseUint body = Inl e"
    using ParseUint_not_digits by blast
  then show ?thesis
    unfolding body_def Cons by (rule Atoi_ParseUint_error)
qed

lemma UnmarshalJSON_component_error:
  assumes "Split (Trim b (CHR 0x22)) (CHR ''.'') = [c0, c1, c2]"
    and "snd (Atoi c0) \<noteq> None \<or> snd (Atoi c1) \<noteq> None \<or> snd (Atoi c2) \<noteq> None"
  shows "fst (UnmarshalJSON v b) = \<lparr>Major = 0, Minor = 0, Patch = 0\<rparr>
       \<and> (\<exists>msg. snd (UnmarshalJSON v b) = Some (Wrap msg ErrInvalidVersionFormat))"
  using assms
  by (cases "Atoi c0"; cases "Atoi c1"; cases "Atoi c2")
     (auto simp add: UnmarshalJSON_def Let_def)

lemma length_3: "length xs = 3 \<Longrightarrow> \<exists>a b c. xs = [a, b, c]"
  by (cases xs; cases "tl xs"; cases "tl (tl xs)") auto

lemma UnmarshalJSON_1_00_10:
  "UnmarshalJSON v ''1.00.10'' = (\<lparr>Major = 1, Minor = 0, Patch = 10\<rparr>, None)"
  by (simp add: UnmarshalJSON_def Trim_def Atoi_def ParseUint_def is_digit_def digit_val_def)

lemma Version_String_1_0_10:
  "Version_String \<lparr>Major = 1, Minor = 0, Patch = 10\<rparr> = ''1.0.10''"
  by code_simp

lemma UnmarshalJSON_quoted_1_00_10:
  "UnmarshalJSON v (CHR 0x22 # ''1.00.10'' @ [CHR 0x22]) = (\<lparr>Major = 1, Minor = 0, Patch = 10\<rparr>, None)"
  by (simp add: UnmarshalJSON_def Trim_def Atoi_def ParseUint_def is_digit_def digit_val_def)

lemma MarshalJSON_1_0_10:
  "fst (MarshalJSON \<lparr>Major = 1, Minor = 0, Patch = 10\<rparr>) = CHR 0x22 # ''1.0.10'' @ [CHR 0x22]"
  by (simp add: MarshalJSON_def Version_String_1_0_10)

text \<open>
  C3.  The claim: decoding \<open>"1.2"\<close> fails with the version-format error and sets the
  three fields of the target to zero whatever it held before.  The code returns the
  error before it touches the target: a target that held 1.2.3 still holds 1.2.3.
\<close>

theorem UnmarshalJSON_two_components_keeps_target:
  "UnmarshalJSON \<lparr>Major = 1, Minor = 2, Patch = 3\<rparr> ''1.2''
     = (\<lparr>Major = 1, Minor = 2, Patch = 3\<rparr>, Some ErrInvalidVersionFormat)"
  by (simp add: UnmarshalJSON_def Trim_def)

text \<open>
  C5.  Decoding \<open>"1.00.10"\<close> succeeds, whatever the target held, and gives major 1,
  minor 0, patch 10; encoding the decoded value gives \<open>"1.0.10"\<close>: the leading zero
  of the minor component is gone.  The same holds for the text between JSON quotes,
  as \<open>json.Unmarshal\<close> passes it and \<open>MarshalJSON\<close> produces it.
\<close>

theorem UnmarshalJSON_leading_zeros:
  "UnmarshalJSON v ''1.00.10'' = (\<lparr>Major = 1, Minor = 0, Patch = 10\<rparr>, None)
   \<and> Version_String (fst (UnmarshalJSON v ''1.00.10'')) = ''1.0.10''
   \<and> Version_String (fst (UnmarshalJSON v ''1.00.10'')) \<noteq> ''1.00.10''
   \<and> UnmarshalJSON v (CHR 0x22 # ''1.00.10'' @ [CHR 0x22])
       = (\<lparr>Major = 1, Minor = 0, Patch = 10\<rparr>, None)
   \<and> fst (MarshalJSON (fst (UnmarshalJSON v (CHR 0x22 # ''1.00.10'' @ [CHR 0x22]))))
       = CHR 0x22 # ''1.0.10'' @ [CHR 0x22]"
  using UnmarshalJSON_quoted_1_00_10 [of v] MarshalJSON_1_0_10
  by (simp add: UnmarshalJSON_1_00_10 Version_String_1_0_10)

text \<open>
  C7.  For every input the kelvin constructor returns the input clamped to
  \<open>[2000, 9000]\<close>: 2000 for an input below 2000, 9000 for an input above 9000, the
  input itself otherwise; 500 gives 2000 and 20000 gives 9000.
\<close>

theorem NewColorKelvin_clamps:
  "NewColorKelvin v = (if v < 2000 then 2000 else if 9000 < v then 9000 else v)
   \<and> 2000 \<le> NewColorKelvin v \<and> NewColorKelvin v \<le> 9000
   \<and> NewColorKelvin 500 = 2000 \<and> NewColorKelvin 20000 = 9000"
  by (auto simp add: NewColorKelvin_def Let_def word_less_nat_alt word_le_nat_alt)

text \<open>
  C8.  For a version string of three components of which one is not a decimal
  integer, decoding leaves the three fields of the target at zero, whatever it held
  and whichever components were parsed before the bad one, and returns an error that
  wraps the version-format error.
\<close>

theorem UnmarshalJSON_bad_component:
  assumes "length (Split (Trim b (CHR 0x22)) (CHR ''.'')) = 3"
    and "\<exists>c \<in> set (Split (Trim b (CHR 0x22)) (CHR ''.'')). \<not> decimal_integer c"
  shows "fst (UnmarshalJSON v b) = \<lparr>Major = 0, Minor = 0, Patch = 0\<rparr>
       \<and> (\<exists>msg. snd (UnmarshalJSON v b) = Some (Wrap msg ErrInvalidVersionFormat)
               \<and> errors_Is (Wrap msg ErrInvalidVersionFormat) ErrInvalidVersionFormat)"
proof -
  from assms(1) obtain c0 c1 c2 where sp: "Split (Trim b (CHR 0x22)) (CHR ''.'') = [c0, c1, c2]"
    using length_3 by blast
  with assms(2) have "\<not> decimal_integer c0 \<or> \<not> decimal_integer c1 \<or> \<not> decimal_integer c2"
    by auto
  then have "snd (Atoi c0) \<noteq> None \<or> snd (Atoi c1) \<noteq> None \<or> snd (Atoi c2) \<noteq> None"
    using Atoi_not_decimal by blast
  with sp show ?thesis
    using UnmarshalJSON_component_error [of b c0 c1 c2 v] by auto
qed

theorem UnmarshalJSON_bad_component_witness:
  "length (Split (Trim ''1.b.3'' (CHR 0x22)) (CHR ''.'')) = 3
   \<and> (\<exists>c \<in> set (Split (Trim ''1.b.3'' (CHR 0x22)) (CHR ''.'')). \<not> decimal_integer c)
   \<and> fst (UnmarshalJSON \<lparr>Major = 7, Minor = 8, Patch = 9\<rparr> ''1.b.3'') = \<lparr>Major = 0, Minor = 0, Patch = 0\<rparr>
   \<and> (\<exists>msg. snd (UnmarshalJSON \<lparr>Major = 7, Minor = 8, Patch = 9\<rparr> ''1.b.3'')
                = Some (Wrap msg ErrInvalidVersionFormat)
            \<and> errors_Is (Wrap msg ErrInvalidVersionFormat) ErrInvalidVersionFormat)"
proof -
  have h1: "length (Split (Trim ''1.b.3'' (CHR 0x22)) (CHR ''.'')) = 3"
    by (simp add: Trim_def)
  have h2: "\<exists>c \<in> set (Split (Trim ''1.b.3'' (CHR 0x22)) (CHR ''.'')). \<not> decimal_integer c"
    by (simp add: Trim_def decimal_integer_def is_digit_def)
  from UnmarshalJSON_bad_component [OF h1 h2, of "\<lparr>Major = 7, Minor = 8, Patch = 9\<rparr>"] h1 h2
  show ?thesis by blast
qed

text \<open>
  C9.  For every version whose three components are non-negative (and lie in the
  range of Go's \<open>int\<close>), decoding its encoded form gives the version back, whatever
  the target held: both for the text of \<open>String\<close> and for the quoted JSON text of
  \<open>MarshalJSON\<close>.
\<close>

theorem Version_roundtrip:
  assumes "0 \<le> Major v" "0 \<le> Minor v" "0 \<le> Patch v"
    and "int_range (Major v)" "int_range (Minor v)" "int_range (Patch v)"
  shows "UnmarshalJSON v0 (Version_String v) = (v, None)
       \<and> UnmarshalJSON v0 (fst (MarshalJSON v)) = (v, None)"
proof -
  have r: "Major v < 2 ^ 63" "Minor v < 2 ^ 63" "Patch v < 2 ^ 63"
    using assms by (simp_all add: int_range_def)
  have a: "UnmarshalJSON v0 (Version_String v) = (v, None)"
    using assms(1-3) r
    by (intro UnmarshalJSON_of_components) (simp_all add: Version_String_Trim Version_String_Split)
  have b: "UnmarshalJSON v0 (fst (MarshalJSON v)) = (v, None)"
    using assms(1-3) r
    by (intro UnmarshalJSON_of_components)
       (simp_all add: MarshalJSON_def Version_String_Trim Version_String_Split)
  from a b show ?thesis by simp
qed

theorem Version_roundtrip_witness:
  "UnmarshalJSON \<lparr>Major = 9, Minor = 9, Patch = 9\<rparr> (Version_String \<lparr>Major = 1, Minor = 0, Patch = 10\<rparr>)
     = (\<lparr>Major = 1, Minor = 0, Patch = 10\<rparr>, None)
   \<and> UnmarshalJSON \<lparr>Major = 9, Minor = 9, Patch = 9\<rparr> (fst (MarshalJSON \<lparr>Major = 1, Minor = 0, Patch = 10\<rparr>))
     = (\<lparr>Major = 1, Minor = 0, Patch = 10\<rparr>, None)"
  using Version_roundtrip [of "\<lparr>Major = 1, Minor = 0, Patch = 10\<rparr>" "\<lparr>Major = 9, Minor = 9, Patch = 9\<rparr>"]
  by (simp add: int_range_def)

section \<open>Device commands\<close>

lemma json_Marshal_onOffRequest_1: \<open>json_Marshal_onOffRequest 1 = Inr ''{"value":1}''\<close>
  by code_simp

lemma json_Marshal_onOffRequest_0: \<open>json_Marshal_onOffRequest 0 = Inr ''{"value":0}''\<close>
  by code_simp

lemma TurnOn_eq:
  \<open>TurnOn ch d =
     send_or_default ch \<lparr>IP = ip d, Payload = Request \<lparr>CMD = ''turn'', Data = ''{"value":1}''\<rparr>\<rparr>
       ''failed to send TurnOn command: channel blocked or closed''\<close>
  by (simp add: TurnOn_def newAPIRequest_def json_Marshal_onOffRequest_1)

lemma TurnOff_eq:
  \<open>TurnOff ch d =
     send_or_default ch \<lparr>IP = ip d, Payload = Request \<lparr>CMD = ''turn'', Data = ''{"value":0}''\<rparr>\<rparr>
       ''failed to send TurnOff command: channel blocked or closed''\<close>
  by (simp add: TurnOff_def newAPIRequest_def json_Marshal_onOffRequest_0)

text \<open>
  C10.  \<open>Toggle\<close> sends the turn-off command (value 0) exactly when the cached state
  is 1; for every other cached value, those above 1 included, it sends the turn-on
  command (value 1).  In every state of the queue it does what \<open>TurnOff\<close> does when
  the cached state is 1 and what \<open>TurnOn\<close> does otherwise.
\<close>

theorem Toggle_direction:
  \<open>Toggle Receiving d =
     Returned (None, [\<lparr>IP = ip d, Payload = Request \<lparr>CMD = ''turn'',
        Data = (if state d = 1 then ''{"value":0}'' else ''{"value":1}'')\<rparr>\<rparr>])
   \<and> Toggle ch d = (if state d = 1 then TurnOff ch d else TurnOn ch d)
   \<and> TurnOff Receiving d \<noteq> TurnOn Receiving d\<close>
  by (simp add: Toggle_def TurnOn_eq TurnOff_eq send_or_default_def)

section \<open>Command sender\<close>

lemma target_port_append:
  assumes "CHR '':'' \<notin> set p"
  shows "target_port (h @ CHR '':'' # p) = p"
proof -
  have "takeWhile (\<lambda>x. x \<noteq> CHR '':'') (rev p @ CHR '':'' # rev h) =
        rev p @ takeWhile (\<lambda>x. x \<noteq> CHR '':'') (CHR '':'' # rev h)"
    using assms by (intro takeWhile_append2) auto
  then show ?thesis by (simp add: target_port_def)
qed

lemma target_port_target:
  "target_port (target a) = (if a = ''239.255.255.250'' then ''4001'' else ''4003'')"
proof (cases "a = ''239.255.255.250''")
  case True
  have "target a = a @ CHR '':'' # ''4001''"
    using True by (simp add: target_def)
  then have "target_port (target a) = ''4001''"
    using target_port_append [of "''4001''" a] by simp
  with True show ?thesis by simp
next
  case False
  have "target a = a @ CHR '':'' # ''4003''"
    using False by (simp add: target_def)
  then have "target_port (target a) = ''4003''"
    using target_port_append [of "''4003''" a] by simp
  with False show ?thesis by simp
qed

text \<open>
  C6.  For the messages drained from the queue, the sender takes the port from the
  destination address alone: the targets it resolves, in queue order, have port 4001
  for the address 239.255.255.250 and port 4003 for every other address.  (A message
  whose payload cannot be encoded is dropped before a target is chosen.)
\<close>

theorem command_sender_port:
  "map (\<lambda>w. target_port (fst w)) (command_sender marshal queue) =
     map (\<lambda>cmd. if IP cmd = ''239.255.255.250'' then ''4001'' else ''4003'')
       (filter (\<lambda>cmd. \<not> isl (marshal (Payload cmd))) queue)
   \<and> map fst (command_sender marshal queue) =
     map (\<lambda>cmd. IP cmd @ (if IP cmd = ''239.255.255.250'' then '':4001'' else '':4003''))
       (filter (\<lambda>cmd. \<not> isl (marshal (Payload cmd))) queue)"
proof -
  have ports: "map (\<lambda>w. target_port (fst w)) (command_sender marshal queue) =
     map (\<lambda>cmd. if IP cmd = ''239.255.255.250'' then ''4001'' else ''4003'')
       (filter (\<lambda>cmd. \<not> isl (marshal (Payload cmd))) queue)"
    by (induction queue) (auto simp add: target_port_target split: sum.splits)
  have targets: "map fst (command_sender marshal queue) =
     map (\<lambda>cmd. IP cmd @ (if IP cmd = ''239.255.255.250'' then '':4001'' else '':4003''))
       (filter (\<lambda>cmd. \<not> isl (marshal (Payload cmd))) queue)"
    by (induction queue) (auto simp add: target_def split: sum.splits)
  from ports targets show ?thesis by simp
qed

section \<open>Listener\<close>

lemma listener_step_devices:
  "devices (fst (listener_step j c srcAddr buffer)) =
     (if isl (DeviceByIP c srcAddr) then devices c @ [newDevice srcAddr] else devices c)"
  by (auto simp add: listener_step_def Let_def split: sum.splits)

text \<open>
  C1, as amended.  For a datagram whose envelope or payload fails to decode, the
  listener sends nothing to any device worker and leaves the registered devices as
  they are; the registry grows by one new device, holding only the source address,
  exactly when that address was not registered yet, since the listener registers the
  source before it decodes.
\<close>

theorem listener_decode_failure:
  assumes "decode_fails j buffer"
  shows "snd (listener_step j c srcAddr buffer) = None
       \<and> devices (fst (listener_step j c srcAddr buffer)) =
           (if isl (DeviceByIP c srcAddr) then devices c @ [newDevice srcAddr] else devices c)"
  using assms
  by (auto simp add: listener_step_def decode_fails_def Let_def split: sum.splits)

theorem listener_decode_failure_witness:
  "decode_fails json_rejecting []
   \<and> snd (listener_step json_rejecting \<lparr>devices = [newDevice ''192.168.1.23'']\<rparr> ''192.168.1.23'' []) = None
   \<and> devices (fst (listener_step json_rejecting \<lparr>devices = [newDevice ''192.168.1.23'']\<rparr> ''192.168.1.23'' []))
       = [newDevice ''192.168.1.23'']
   \<and> snd (listener_step json_rejecting \<lparr>devices = [newDevice ''192.168.1.23'']\<rparr> ''192.168.1.40'' []) = None
   \<and> devices (fst (listener_step json_rejecting \<lparr>devices = [newDevice ''192.168.1.23'']\<rparr> ''192.168.1.40'' []))
       = [newDevice ''192.168.1.23'', newDevice ''192.168.1.40'']"
proof -
  have h: "decode_fails json_rejecting []"
    by (simp add: decode_fails_def json_rejecting_def)
  have known: "\<not> isl (DeviceByIP \<lparr>devices = [newDevice ''192.168.1.23'']\<rparr> ''192.168.1.23'')"
    by (simp add: DeviceByIP_def newDevice_def)
  have unknown: "isl (DeviceByIP \<lparr>devices = [newDevice ''192.168.1.23'']\<rparr> ''192.168.1.40'')"
    by (simp add: DeviceByIP_def newDevice_def)
  from listener_decode_failure [OF h, of "\<lparr>devices = [newDevice ''192.168.1.23'']\<rparr>" "''192.168.1.23''"]
    listener_decode_failure [OF h, of "\<lparr>devices = [newDevice ''192.168.1.23'']\<rparr>" "''192.168.1.40''"]
    h known unknown
  show ?thesis by simp
qed

text \<open>
  C1 as stated fails: the empty datagram from an address that is not registered fails
  to decode, and the registry that was empty holds a device afterwards.
\<close>

theorem listener_decode_failure_counterexample:
  "decode_fails json_rejecting []
   \<and> devices (fst (listener_step json_rejecting \<lparr>devices = []\<rparr> ''192.168.1.23'' []))
       = [newDevice ''192.168.1.23'']
   \<and> devices (fst (listener_step json_rejecting \<lparr>devices = []\<rparr> ''192.168.1.23'' []))
       \<noteq> devices \<lparr>devices = []\<rparr>"
  by (simp add: decode_fails_def json_rejecting_def listener_step_def DeviceByIP_def)

section \<open>Status requests\<close>

lemma RequestStatus_wrapper:
  "newAPIRequest ''devStatus'' json_Marshal_devStatusRequest = Inr \<lparr>CMD = ''devStatus'', Data = ''{}''\<rparr>"
  by (simp add: newAPIRequest_def json_Marshal_devStatusRequest_def)






text \<open>
  C2, as amended.  When the worker applies a status response and no caller is blocked
  in \<open>RequestStatus\<close>, the completion signal is handed to nobody: it is kept in the
  one-slot buffer of \<open>statusUpdate\<close> if the slot is free, and it is dropped only if the
  slot is already taken.  The fields of the response and the time are stored in the
  device either way.
\<close>

theorem handler_signal_retained:
  assumes "Payload resp = Status payload"
  shows "handler_step now now' False d resp =
           (d\<lparr>state := OnOff payload,
              brightness := status_Brightness payload,
              color := status_Color payload,
              colorKelvin := status_ColorKelvin payload,
              seen := now,
              statusUpdate := (if statusUpdate d = [] then [now'] else statusUpdate d)\<rparr>,
            False)"
  using assms by (simp add: handler_step_def statusUpdate_cap_def Let_def)

theorem handler_signal_retained_witness:
  "statusUpdate (fst (handler_step 10 11 False device_0 status_0)) = [11]
   \<and> statusUpdate (fst (handler_step 10 11 False (device_0\<lparr>statusUpdate := [5]\<rparr>) status_0)) = [5]
   \<and> state (fst (handler_step 10 11 False device_0 status_0)) = 1
   \<and> \<not> snd (handler_step 10 11 False device_0 status_0)"
proof -
  have p: "Payload status_0 = Status \<lparr>OnOff = 1, status_Brightness = 100,
                        status_Color = \<lparr>R = 255, G = 0, B = 0\<rparr>, status_ColorKelvin = 7200\<rparr>"
    by (simp add: status_0_def)
  have e: "statusUpdate device_0 = []"
    by (simp add: device_0_def newDevice_def)
  from handler_signal_retained [OF p, of 10 11 device_0]
    handler_signal_retained [OF p, of 10 11 "device_0\<lparr>statusUpdate := [5]\<rparr>"] e
  show ?thesis by simp
qed

text \<open>
  C2 as stated fails: a fresh device with no caller waiting keeps the signal of a
  status response in its buffer, and a later \<open>RequestStatus\<close> that has only the
  timeout ahead of it, no response following its query, returns success by consuming
  that signal.
\<close>

theorem handler_signal_dropped_counterexample:
  "statusUpdate device_0 = []
   \<and> statusUpdate (fst (handler_step 10 11 False device_0 status_0)) = [11]
   \<and> wake sched_timeout = WakeTimeout
   \<and> RequestStatus sched_timeout (fst (handler_step 10 11 False device_0 status_0)) =
       Returned (None,
         (fst (handler_step 10 11 False device_0 status_0))\<lparr>statusUpdate := []\<rparr>,
         [status_query device_0])"
  unfolding RequestStatus_def RequestStatus_wrapper
  by (simp add: device_0_def status_0_def sched_timeout_def newDevice_def handler_step_def
      statusUpdate_cap_def select_ready_def status_query_def)




end
